theory Spec2Isabelle
  imports Main "HOL-Library.Word" "HOL-Library.Sublist" "HOL-Library.Multiset"
begin


section \<open>The bridge indexer's database layer (indexer/db/db.go)\<close>

text \<open>
  The Go file talks to PostgreSQL through database/sql. The embedding keeps the six
  tables the statements of db.go touch as lists of rows in insertion order, gives every
  SQL statement of the file a function on that state, and gives every exported method
  a function built from those statements in the order the Go code issues them.

  Hashes and addresses reach the database through their \<open>String()\<close> rendering, which is
  injective, so the model carries the rendered strings. \<open>uint64\<close> and \<open>uint\<close> values are
  64-bit words, \<open>uint8\<close> is an 8-bit word, \<open>*big.Int\<close> is an unbounded integer and
  \<open>[]byte\<close> a list of bytes.
\<close>

subsection \<open>Values passed in by the caller\<close>

text \<open>\<open>Token\<close>: the fields db.go reads (\<open>token.Name\<close>, \<open>token.Symbol\<close>, \<open>token.Decimals\<close>)
  and writes (\<open>l1Token.Address\<close>).\<close>

record Token =
  Address :: string
  Name :: string
  Symbol :: string
  Decimals :: "8 word"

text \<open>\<open>Deposit\<close> and \<open>Withdrawal\<close> are read through the same eight fields in db.go, so one
  record serves both.\<close>

record Event =
  FromAddress :: string
  ToAddress :: string
  L1Token :: string
  L2Token :: string
  Amount :: int
  TxHash :: string
  LogIndex :: "64 word"
  Data :: "8 word list"

type_synonym Deposit = Event
type_synonym Withdrawal = Event

record IndexedL1Block =
  L1_Hash :: string
  L1_ParentHash :: string
  L1_Number :: "64 word"
  L1_Timestamp :: "64 word"
  L1_Deposits :: "Deposit list"
  L1_Withdrawals :: "Withdrawal list"

record IndexedL2Block =
  L2_Hash :: string
  L2_ParentHash :: string
  L2_Number :: "64 word"
  L2_Timestamp :: "64 word"
  L2_Withdrawals :: "Withdrawal list"

subsection \<open>Tables\<close>

text \<open>Columns as the INSERT statements of db.go list them. A column the statement does not
  list is NULL in the new row: \<open>l2_block_hash\<close> for a row inserted by
  \<open>AddIndexedL1Block\<close>, \<open>l1_block_hash\<close> for one inserted by \<open>AddIndexedL2Block\<close>.\<close>

record block_row =
  b_hash :: string
  b_parent_hash :: string
  b_number :: "64 word"
  b_timestamp :: "64 word"

record token_row =
  t_address :: string
  t_name :: string
  t_symbol :: string
  t_decimals :: "8 word"

record deposit_row =
  d_guid :: string
  d_from_address :: string
  d_to_address :: string
  d_l1_token :: string
  d_l2_token :: string
  d_amount :: int
  d_tx_hash :: string
  d_log_index :: "64 word"
  d_l1_block_hash :: string
  d_data :: "8 word list"

record withdrawal_row =
  w_guid :: string
  w_from_address :: string
  w_to_address :: string
  w_l1_token :: string
  w_l2_token :: string
  w_amount :: int
  w_tx_hash :: string
  w_log_index :: "64 word"
  w_l1_block_hash :: "string option"
  w_l2_block_hash :: "string option"
  w_data :: "8 word list"

record database =
  l1_blocks :: "block_row list"
  l2_blocks :: "block_row list"
  l1_tokens :: "token_row list"
  l2_tokens :: "token_row list"
  deposits :: "deposit_row list"
  withdrawals :: "withdrawal_row list"

definition empty_database :: database where
  "empty_database =
     \<lparr>l1_blocks = [], l2_blocks = [], l1_tokens = [], l2_tokens = [],
      deposits = [], withdrawals = []\<rparr>"

subsection \<open>Errors and panics\<close>

datatype error =
    UniqueViolation string
  | ForeignKeyViolation string
  | ErrNoRows
  | BackendError string

datatype panic = NilPointerDereference

text \<open>What a method that returns \<open>(*T, error)\<close> can do: return a value (\<open>None\<close> is the nil
  pointer), return an error, or panic.\<close>

datatype 'a outcome = Returned 'a | Failed error | Panicked panic

subsection \<open>The environment of a write\<close>

text \<open>
  \<open>NewGUID\<close> is an opaque generator; \<open>tx.Exec\<close> can fail for reasons of the backend (a lost
  connection) besides the constraints of the schema. Both are parameters: \<open>NewGUID n\<close> is
  the identifier minted for the n-th statement of a unit of work, and \<open>fault n\<close> is the
  backend error, if any, that the n-th statement of the unit meets. A writing method
  issues all its statements in one unit of work. A listing method issues its two queries
  in two units, one after the other; for it \<open>fault 0\<close> is what the page query meets and
  \<open>fault 1\<close> what the count query meets.
\<close>

record env =
  NewGUID :: "nat \<Rightarrow> string"
  fault :: "nat \<Rightarrow> error option"

text \<open>An open transaction: the tables as the unit of work sees them, and the number of
  statements it has executed.\<close>

record tx =
  work :: database
  issued :: nat

definition Exec :: "env \<Rightarrow> (string \<Rightarrow> database \<Rightarrow> error + database) \<Rightarrow> tx \<Rightarrow> error + tx" where
  "Exec e stmt t =
     (case fault e (issued t) of
        Some err \<Rightarrow> Inl err
      | None \<Rightarrow>
          (case stmt (NewGUID e (issued t)) (work t) of
             Inl err \<Rightarrow> Inl err
           | Inr db' \<Rightarrow> Inr \<lparr>work = db', issued = Suc (issued t)\<rparr>))"

text \<open>
  Modelled from the spec: \<open>txn\<close> is called by every method of db.go and defined in another
  file of the package. Section 4.2 and section 7 of the specification give its contract:
  the body runs as one unit of work; an error of the body propagates unmodified and rolls
  the whole unit back; otherwise the unit commits.
\<close>

definition txn :: "database \<Rightarrow> (tx \<Rightarrow> error + tx) \<Rightarrow> error option \<times> database" where
  "txn db body =
     (case body \<lparr>work = db, issued = 0\<rparr> of
        Inl err \<Rightarrow> (Some err, db)
      | Inr t \<Rightarrow> (None, work t))"

subsection \<open>The statements\<close>

text \<open>
  Modelled from the spec: the schema is in another file of the package. Section 3 of the
  specification gives its constraints: a block hash is unique within its chain, a token
  address is unique within its chain, a withdrawal's \<open>tx_hash\<close> is unique, and the block
  hash columns of deposits and withdrawals are foreign keys into the block table of
  their chain (nullable for withdrawals). A unique index is checked when the row is
  written, a foreign key at the end of the statement.
\<close>

definition insertL1TokenStatement :: "token_row \<Rightarrow> database \<Rightarrow> error + database" where
  "insertL1TokenStatement r db =
     (if t_address r \<in> set (map t_address (l1_tokens db))
      then Inl (UniqueViolation ''l1_tokens.address'')
      else Inr (db\<lparr>l1_tokens := l1_tokens db @ [r]\<rparr>))"

definition insertL2TokenStatement :: "token_row \<Rightarrow> database \<Rightarrow> error + database" where
  "insertL2TokenStatement r db =
     (if t_address r \<in> set (map t_address (l2_tokens db))
      then Inl (UniqueViolation ''l2_tokens.address'')
      else Inr (db\<lparr>l2_tokens := l2_tokens db @ [r]\<rparr>))"

definition insertL1BlockStatement :: "block_row \<Rightarrow> database \<Rightarrow> error + database" where
  "insertL1BlockStatement r db =
     (if b_hash r \<in> set (map b_hash (l1_blocks db))
      then Inl (UniqueViolation ''l1_blocks.hash'')
      else Inr (db\<lparr>l1_blocks := l1_blocks db @ [r]\<rparr>))"

definition insertL2BlockStatement :: "block_row \<Rightarrow> database \<Rightarrow> error + database" where
  "insertL2BlockStatement r db =
     (if b_hash r \<in> set (map b_hash (l2_blocks db))
      then Inl (UniqueViolation ''l2_blocks.hash'')
      else Inr (db\<lparr>l2_blocks := l2_blocks db @ [r]\<rparr>))"

text \<open>\<open>insertDepositStatement\<close> of \<open>AddIndexedL1Block\<close>: a plain INSERT.\<close>

definition insertDepositStatement :: "deposit_row \<Rightarrow> database \<Rightarrow> error + database" where
  "insertDepositStatement r db =
     (if d_l1_block_hash r \<notin> set (map b_hash (l1_blocks db))
      then Inl (ForeignKeyViolation ''deposits.l1_block_hash'')
      else Inr (db\<lparr>deposits := deposits db @ [r]\<rparr>))"

text \<open>\<open>insertWithdrawalStatement\<close> of \<open>AddIndexedL1Block\<close>:
  \<^verbatim>\<open>INSERT INTO withdrawals (..., l1_block_hash, data) VALUES (...)
  ON CONFLICT (tx_hash) DO UPDATE SET l1_block_hash = $9\<close>.
  The row arrives with \<open>w_l1_block_hash = Some h\<close> and \<open>w_l2_block_hash = None\<close>.\<close>

definition set_l1_block_hash :: "string \<Rightarrow> string option \<Rightarrow> withdrawal_row \<Rightarrow> withdrawal_row" where
  "set_l1_block_hash txh v x = (if w_tx_hash x = txh then x\<lparr>w_l1_block_hash := v\<rparr> else x)"

definition l1_fk_ok :: "string option \<Rightarrow> database \<Rightarrow> bool" where
  "l1_fk_ok v db = (case v of None \<Rightarrow> True | Some h \<Rightarrow> h \<in> set (map b_hash (l1_blocks db)))"

definition l2_fk_ok :: "string option \<Rightarrow> database \<Rightarrow> bool" where
  "l2_fk_ok v db = (case v of None \<Rightarrow> True | Some h \<Rightarrow> h \<in> set (map b_hash (l2_blocks db)))"

definition insertWithdrawalStatementL1 :: "withdrawal_row \<Rightarrow> database \<Rightarrow> error + database" where
  "insertWithdrawalStatementL1 r db =
     (if w_tx_hash r \<in> set (map w_tx_hash (withdrawals db))
      then
        (if \<not> l1_fk_ok (w_l1_block_hash r) db
         then Inl (ForeignKeyViolation ''withdrawals.l1_block_hash'')
         else Inr (db\<lparr>withdrawals :=
                 map (set_l1_block_hash (w_tx_hash r) (w_l1_block_hash r)) (withdrawals db)\<rparr>))
      else
        (if \<not> l1_fk_ok (w_l1_block_hash r) db
         then Inl (ForeignKeyViolation ''withdrawals.l1_block_hash'')
         else if \<not> l2_fk_ok (w_l2_block_hash r) db
         then Inl (ForeignKeyViolation ''withdrawals.l2_block_hash'')
         else Inr (db\<lparr>withdrawals := withdrawals db @ [r]\<rparr>)))"

text \<open>\<open>insertWithdrawalStatement\<close> of \<open>AddIndexedL2Block\<close>: a plain INSERT, with no
  ON CONFLICT clause.\<close>

definition insertWithdrawalStatementL2 :: "withdrawal_row \<Rightarrow> database \<Rightarrow> error + database" where
  "insertWithdrawalStatementL2 r db =
     (if w_tx_hash r \<in> set (map w_tx_hash (withdrawals db))
      then Inl (UniqueViolation ''withdrawals.tx_hash'')
      else if \<not> l1_fk_ok (w_l1_block_hash r) db
      then Inl (ForeignKeyViolation ''withdrawals.l1_block_hash'')
      else if \<not> l2_fk_ok (w_l2_block_hash r) db
      then Inl (ForeignKeyViolation ''withdrawals.l2_block_hash'')
      else Inr (db\<lparr>withdrawals := withdrawals db @ [r]\<rparr>))"

subsection \<open>AddL1Token, AddL2Token\<close>

definition token_values :: "string \<Rightarrow> Token \<Rightarrow> token_row" where
  "token_values address token =
     \<lparr>t_address = address, t_name = Name token, t_symbol = Symbol token,
      t_decimals = Decimals token\<rparr>"

definition AddL1Token :: "env \<Rightarrow> string \<Rightarrow> Token \<Rightarrow> database \<Rightarrow> error option \<times> database" where
  "AddL1Token e address token db =
     txn db (Exec e (\<lambda>_. insertL1TokenStatement (token_values address token)))"

definition AddL2Token :: "env \<Rightarrow> string \<Rightarrow> Token \<Rightarrow> database \<Rightarrow> error option \<times> database" where
  "AddL2Token e address token db =
     txn db (Exec e (\<lambda>_. insertL2TokenStatement (token_values address token)))"

subsection \<open>AddIndexedL1Block\<close>

definition deposit_values :: "string \<Rightarrow> Deposit \<Rightarrow> string \<Rightarrow> deposit_row" where
  "deposit_values guid deposit block_hash =
     \<lparr>d_guid = guid, d_from_address = FromAddress deposit, d_to_address = ToAddress deposit,
      d_l1_token = L1Token deposit, d_l2_token = L2Token deposit, d_amount = Amount deposit,
      d_tx_hash = TxHash deposit, d_log_index = LogIndex deposit,
      d_l1_block_hash = block_hash, d_data = Data deposit\<rparr>"

definition withdrawal_values_l1 :: "string \<Rightarrow> Withdrawal \<Rightarrow> string \<Rightarrow> withdrawal_row" where
  "withdrawal_values_l1 guid withdrawal block_hash =
     \<lparr>w_guid = guid, w_from_address = FromAddress withdrawal,
      w_to_address = ToAddress withdrawal, w_l1_token = L1Token withdrawal,
      w_l2_token = L2Token withdrawal, w_amount = Amount withdrawal,
      w_tx_hash = TxHash withdrawal, w_log_index = LogIndex withdrawal,
      w_l1_block_hash = Some block_hash, w_l2_block_hash = None,
      w_data = Data withdrawal\<rparr>"

definition withdrawal_values_l2 :: "string \<Rightarrow> Withdrawal \<Rightarrow> string \<Rightarrow> withdrawal_row" where
  "withdrawal_values_l2 guid withdrawal block_hash =
     \<lparr>w_guid = guid, w_from_address = FromAddress withdrawal,
      w_to_address = ToAddress withdrawal, w_l1_token = L1Token withdrawal,
      w_l2_token = L2Token withdrawal, w_amount = Amount withdrawal,
      w_tx_hash = TxHash withdrawal, w_log_index = LogIndex withdrawal,
      w_l1_block_hash = None, w_l2_block_hash = Some block_hash,
      w_data = Data withdrawal\<rparr>"

text \<open>\<^verbatim>\<open>for _, deposit := range block.Deposits\<close>: one INSERT per deposit, returning at the
  first error.\<close>

fun insert_deposits :: "env \<Rightarrow> string \<Rightarrow> Deposit list \<Rightarrow> tx \<Rightarrow> error + tx" where
  "insert_deposits e block_hash [] t = Inr t"
| "insert_deposits e block_hash (deposit # rest) t =
     (case Exec e (\<lambda>guid. insertDepositStatement (deposit_values guid deposit block_hash)) t of
        Inl err \<Rightarrow> Inl err
      | Inr t' \<Rightarrow> insert_deposits e block_hash rest t')"

text \<open>\<^verbatim>\<open>for _, withdrawal := range block.Withdrawals\<close> of \<open>AddIndexedL1Block\<close>.\<close>

fun upsert_withdrawals :: "env \<Rightarrow> string \<Rightarrow> Withdrawal list \<Rightarrow> tx \<Rightarrow> error + tx" where
  "upsert_withdrawals e block_hash [] t = Inr t"
| "upsert_withdrawals e block_hash (withdrawal # rest) t =
     (case Exec e (\<lambda>guid. insertWithdrawalStatementL1
                             (withdrawal_values_l1 guid withdrawal block_hash)) t of
        Inl err \<Rightarrow> Inl err
      | Inr t' \<Rightarrow> upsert_withdrawals e block_hash rest t')"

definition l1_block_values :: "IndexedL1Block \<Rightarrow> block_row" where
  "l1_block_values block =
     \<lparr>b_hash = L1_Hash block, b_parent_hash = L1_ParentHash block,
      b_number = L1_Number block, b_timestamp = L1_Timestamp block\<rparr>"

definition AddIndexedL1Block_body :: "env \<Rightarrow> IndexedL1Block \<Rightarrow> tx \<Rightarrow> error + tx" where
  "AddIndexedL1Block_body e block t =
     (case Exec e (\<lambda>_. insertL1BlockStatement (l1_block_values block)) t of
        Inl err \<Rightarrow> Inl err
      | Inr t1 \<Rightarrow>
          if length (L1_Deposits block) = 0 then Inr t1
          else
            (case insert_deposits e (L1_Hash block) (L1_Deposits block) t1 of
               Inl err \<Rightarrow> Inl err
             | Inr t2 \<Rightarrow>
                 if length (L1_Withdrawals block) = 0 then Inr t2
                 else upsert_withdrawals e (L1_Hash block) (L1_Withdrawals block) t2))"

definition AddIndexedL1Block :: "env \<Rightarrow> IndexedL1Block \<Rightarrow> database \<Rightarrow> error option \<times> database" where
  "AddIndexedL1Block e block db = txn db (AddIndexedL1Block_body e block)"

subsection \<open>AddIndexedL2Block\<close>

text \<open>\<^verbatim>\<open>for _, withdrawal := range block.Withdrawals\<close> of \<open>AddIndexedL2Block\<close>.\<close>

fun insert_withdrawals :: "env \<Rightarrow> string \<Rightarrow> Withdrawal list \<Rightarrow> tx \<Rightarrow> error + tx" where
  "insert_withdrawals e block_hash [] t = Inr t"
| "insert_withdrawals e block_hash (withdrawal # rest) t =
     (case Exec e (\<lambda>guid. insertWithdrawalStatementL2
                             (withdrawal_values_l2 guid withdrawal block_hash)) t of
        Inl err \<Rightarrow> Inl err
      | Inr t' \<Rightarrow> insert_withdrawals e block_hash rest t')"

definition l2_block_values :: "IndexedL2Block \<Rightarrow> block_row" where
  "l2_block_values block =
     \<lparr>b_hash = L2_Hash block, b_parent_hash = L2_ParentHash block,
      b_number = L2_Number block, b_timestamp = L2_Timestamp block\<rparr>"

definition AddIndexedL2Block_body :: "env \<Rightarrow> IndexedL2Block \<Rightarrow> tx \<Rightarrow> error + tx" where
  "AddIndexedL2Block_body e block t =
     (case Exec e (\<lambda>_. insertL2BlockStatement (l2_block_values block)) t of
        Inl err \<Rightarrow> Inl err
      | Inr t1 \<Rightarrow>
          if length (L2_Withdrawals block) = 0 then Inr t1
          else insert_withdrawals e (L2_Hash block) (L2_Withdrawals block) t1)"

definition AddIndexedL2Block :: "env \<Rightarrow> IndexedL2Block \<Rightarrow> database \<Rightarrow> error option \<times> database" where
  "AddIndexedL2Block e block db = txn db (AddIndexedL2Block_body e block)"

subsection \<open>Reading one row\<close>

text \<open>\<open>row.Scan\<close> on the result of \<open>tx.QueryRow\<close>: the first row of the result, or
  \<open>sql.ErrNoRows\<close> when the result is empty.\<close>

definition Scan :: "'a list \<Rightarrow> error + 'a" where
  "Scan rows = (case rows of [] \<Rightarrow> Inl ErrNoRows | r # _ \<Rightarrow> Inr r)"

subsection \<open>GetL1TokenByAddress, GetL2TokenByAddress\<close>

definition selectL1TokenStatement :: "database \<Rightarrow> string \<Rightarrow> token_row list" where
  "selectL1TokenStatement db address = [t \<leftarrow> l1_tokens db. t_address t = address]"

definition selectL2TokenStatement :: "database \<Rightarrow> string \<Rightarrow> token_row list" where
  "selectL2TokenStatement db address = [t \<leftarrow> l2_tokens db. t_address t = address]"

text \<open>\<^verbatim>\<open>token = &Token{Name: name, Symbol: symbol, Decimals: decimals}\<close>: the address
  field keeps its zero value.\<close>

definition token_of_row :: "token_row \<Rightarrow> Token" where
  "token_of_row t =
     \<lparr>Address = [], Name = t_name t, Symbol = t_symbol t, Decimals = t_decimals t\<rparr>"

definition GetL1TokenByAddress :: "database \<Rightarrow> string \<Rightarrow> Token option outcome" where
  "GetL1TokenByAddress db address =
     (case Scan (selectL1TokenStatement db address) of
        Inl err \<Rightarrow> if err = ErrNoRows then Returned None else Failed err
      | Inr t \<Rightarrow> Returned (Some (token_of_row t)))"

definition GetL2TokenByAddress :: "database \<Rightarrow> string \<Rightarrow> Token option outcome" where
  "GetL2TokenByAddress db address =
     (case Scan (selectL2TokenStatement db address) of
        Inl err \<Rightarrow> if err = ErrNoRows then Returned None else Failed err
      | Inr t \<Rightarrow> Returned (Some (token_of_row t)))"

subsection \<open>GetDepositsByAddress\<close>

text \<open>\<open>tx.Query\<close> and \<open>tx.QueryRow\<close> of a listing method, as the n-th query of the call:
  what the statement selects, unless the backend fails. The error is the one the method
  sees in \<open>err\<close>, in \<open>rows.Err()\<close> or in the \<open>Scan\<close> of a row, and returns.\<close>

definition Query :: "env \<Rightarrow> nat \<Rightarrow> 'a \<Rightarrow> error + 'a" where
  "Query e n selected = (case fault e n of Some err \<Rightarrow> Inl err | None \<Rightarrow> Inr selected)"

text \<open>\<open>Limit\<close> and \<open>Offset\<close> are passed to LIMIT and OFFSET; \<open>Total\<close> receives \<open>count(*)\<close>, a
  row count, which the \<open>uint64\<close> it is scanned into holds exactly.\<close>

record PaginationParam =
  Limit :: nat
  Offset :: nat
  Total :: nat

record DepositJSON =
  DJ_GUID :: string
  DJ_FromAddress :: string
  DJ_ToAddress :: string
  DJ_Amount :: int
  DJ_TxHash :: string
  DJ_Data :: "8 word list"
  DJ_L1Token :: "Token option"
  DJ_L2Token :: string
  DJ_BlockNumber :: "64 word"
  DJ_BlockTimestamp :: "64 word"

record PaginatedDeposits =
  PD_Param :: PaginationParam
  PD_Deposits :: "DepositJSON list"

text \<open>\<^verbatim>\<open>FROM deposits INNER JOIN l1_blocks ON deposits.l1_block_hash=l1_blocks.hash
  INNER JOIN l1_tokens ON deposits.l1_token=l1_tokens.address
  WHERE deposits.from_address = $1\<close>, shared by the page and the count statement.\<close>

definition deposits_join :: "database \<Rightarrow> string \<Rightarrow> (deposit_row \<times> block_row \<times> token_row) list" where
  "deposits_join db address =
     [(d, b, t).
        d \<leftarrow> deposits db,
        b \<leftarrow> l1_blocks db, d_l1_block_hash d = b_hash b,
        t \<leftarrow> l1_tokens db, d_l1_token d = t_address t,
        d_from_address d = address]"

text \<open>\<^verbatim>\<open>ORDER BY l1_blocks.timestamp LIMIT $2 OFFSET $3\<close>. Rows with equal timestamps
  keep the order of the join (the tie-break section 4.4 of the specification accepts).\<close>

definition selectDepositsStatement ::
  "database \<Rightarrow> string \<Rightarrow> nat \<Rightarrow> nat \<Rightarrow> (deposit_row \<times> block_row \<times> token_row) list" where
  "selectDepositsStatement db address limit offset =
     take limit (drop offset (sort_key (\<lambda>(d, b, t). b_timestamp b) (deposits_join db address)))"

definition selectDepositCountStatement :: "database \<Rightarrow> string \<Rightarrow> nat" where
  "selectDepositCountStatement db address = length (deposits_join db address)"

definition scan_deposit :: "deposit_row \<times> block_row \<times> token_row \<Rightarrow> DepositJSON" where
  "scan_deposit = (\<lambda>(d, b, t).
     \<lparr>DJ_GUID = d_guid d, DJ_FromAddress = d_from_address d, DJ_ToAddress = d_to_address d,
      DJ_Amount = d_amount d, DJ_TxHash = d_tx_hash d, DJ_Data = d_data d,
      DJ_L1Token = Some \<lparr>Address = d_l1_token d, Name = t_name t, Symbol = t_symbol t,
                          Decimals = t_decimals t\<rparr>,
      DJ_L2Token = d_l2_token d,
      DJ_BlockNumber = b_number b, DJ_BlockTimestamp = b_timestamp b\<rparr>)"

text \<open>The page query, then the count query in a unit of work of its own; the error of
  either is returned with no result (\<^verbatim>\<open>return nil, err\<close>).\<close>

definition GetDepositsByAddress ::
  "env \<Rightarrow> database \<Rightarrow> string \<Rightarrow> PaginationParam \<Rightarrow> error + PaginatedDeposits" where
  "GetDepositsByAddress e db address page =
     (case Query e 0 (selectDepositsStatement db address (Limit page) (Offset page)) of
        Inl err \<Rightarrow> Inl err
      | Inr rows \<Rightarrow>
          (let deposits = map scan_deposit rows
           in case Query e 1 (selectDepositCountStatement db address) of
                Inl err \<Rightarrow> Inl err
              | Inr cnt \<Rightarrow> Inr \<lparr>PD_Param = page\<lparr>Total := cnt\<rparr>, PD_Deposits = deposits\<rparr>))"

subsection \<open>GetWithdrawalsByAddress\<close>

record WithdrawalJSON =
  WJ_GUID :: string
  WJ_FromAddress :: string
  WJ_ToAddress :: string
  WJ_Amount :: int
  WJ_TxHash :: string
  WJ_Data :: "8 word list"
  WJ_L1Token :: string
  WJ_L2Token :: "Token option"
  WJ_L1BlockNumber :: "64 word"
  WJ_L1BlockTimestamp :: "64 word"
  WJ_L2BlockNumber :: "64 word"
  WJ_L2BlockTimestamp :: "64 word"

record PaginatedWithdrawals =
  PW_Param :: PaginationParam
  PW_Withdrawals :: "WithdrawalJSON list"

text \<open>\<^verbatim>\<open>FROM withdrawals INNER JOIN l2_blocks ON withdrawals.l2_block_hash=l2_blocks.hash
  INNER JOIN l2_tokens ON withdrawals.l2_token=l2_tokens.address
  WHERE withdrawals.from_address = $1\<close>. A NULL block hash equals no hash.\<close>

definition withdrawals_join ::
  "database \<Rightarrow> string \<Rightarrow> (withdrawal_row \<times> block_row \<times> token_row) list" where
  "withdrawals_join db address =
     [(w, b, t).
        w \<leftarrow> withdrawals db,
        b \<leftarrow> l2_blocks db, w_l2_block_hash w = Some (b_hash b),
        t \<leftarrow> l2_tokens db, w_l2_token w = t_address t,
        w_from_address w = address]"

definition selectWithdrawalsStatement ::
  "database \<Rightarrow> string \<Rightarrow> nat \<Rightarrow> nat \<Rightarrow> (withdrawal_row \<times> block_row \<times> token_row) list" where
  "selectWithdrawalsStatement db address limit offset =
     take limit (drop offset (sort_key (\<lambda>(w, b, t). b_timestamp b) (withdrawals_join db address)))"

definition selectWithdrawalCountStatement :: "database \<Rightarrow> string \<Rightarrow> nat" where
  "selectWithdrawalCountStatement db address = length (withdrawals_join db address)"

text \<open>\<^verbatim>\<open>var withdrawal WithdrawalJSON\<close> starts from the zero value, so the two L1 block
  fields, which this listing does not scan, stay 0.\<close>

definition scan_withdrawal :: "withdrawal_row \<times> block_row \<times> token_row \<Rightarrow> WithdrawalJSON" where
  "scan_withdrawal = (\<lambda>(w, b, t).
     \<lparr>WJ_GUID = w_guid w, WJ_FromAddress = w_from_address w, WJ_ToAddress = w_to_address w,
      WJ_Amount = w_amount w, WJ_TxHash = w_tx_hash w, WJ_Data = w_data w,
      WJ_L1Token = w_l1_token w,
      WJ_L2Token = Some \<lparr>Address = w_l2_token w, Name = t_name t, Symbol = t_symbol t,
                          Decimals = t_decimals t\<rparr>,
      WJ_L1BlockNumber = 0, WJ_L1BlockTimestamp = 0,
      WJ_L2BlockNumber = b_number b, WJ_L2BlockTimestamp = b_timestamp b\<rparr>)"

definition GetWithdrawalsByAddress ::
  "env \<Rightarrow> database \<Rightarrow> string \<Rightarrow> PaginationParam \<Rightarrow> error + PaginatedWithdrawals" where
  "GetWithdrawalsByAddress e db address page =
     (case Query e 0 (selectWithdrawalsStatement db address (Limit page) (Offset page)) of
        Inl err \<Rightarrow> Inl err
      | Inr rows \<Rightarrow>
          (let withdrawals = map scan_withdrawal rows
           in case Query e 1 (selectWithdrawalCountStatement db address) of
                Inl err \<Rightarrow> Inl err
              | Inr cnt \<Rightarrow>
                  Inr \<lparr>PW_Param = page\<lparr>Total := cnt\<rparr>, PW_Withdrawals = withdrawals\<rparr>))"

subsection \<open>GetWithdrawalStatus\<close>

text \<open>\<^verbatim>\<open>FROM withdrawals INNER JOIN l1_blocks ON withdrawals.l1_block_hash=l1_blocks.hash
  INNER JOIN l2_blocks ON withdrawals.l2_block_hash=l2_blocks.hash
  INNER JOIN l2_tokens ON withdrawals.l2_token=l2_tokens.address
  WHERE withdrawals.tx_hash = $1\<close>.\<close>

definition selectWithdrawalStatement ::
  "database \<Rightarrow> string \<Rightarrow> (withdrawal_row \<times> block_row \<times> block_row \<times> token_row) list" where
  "selectWithdrawalStatement db hash =
     [(w, b1, b2, t).
        w \<leftarrow> withdrawals db,
        b1 \<leftarrow> l1_blocks db, w_l1_block_hash w = Some (b_hash b1),
        b2 \<leftarrow> l2_blocks db, w_l2_block_hash w = Some (b_hash b2),
        t \<leftarrow> l2_tokens db, w_l2_token w = t_address t,
        w_tx_hash w = hash]"

definition scan_withdrawal_status ::
  "WithdrawalJSON \<Rightarrow> withdrawal_row \<times> block_row \<times> block_row \<times> token_row \<Rightarrow> WithdrawalJSON" where
  "scan_withdrawal_status withdrawal = (\<lambda>(w, b1, b2, t).
     withdrawal\<lparr>WJ_GUID := w_guid w, WJ_FromAddress := w_from_address w,
      WJ_ToAddress := w_to_address w, WJ_Amount := w_amount w, WJ_TxHash := w_tx_hash w,
      WJ_Data := w_data w, WJ_L1Token := w_l1_token w,
      WJ_L1BlockNumber := b_number b1, WJ_L1BlockTimestamp := b_timestamp b1,
      WJ_L2BlockNumber := b_number b2, WJ_L2BlockTimestamp := b_timestamp b2,
      WJ_L2Token := Some \<lparr>Address = w_l2_token w, Name = t_name t, Symbol = t_symbol t,
                           Decimals = t_decimals t\<rparr>\<rparr>)"

text \<open>
  \<^verbatim>\<open>var withdrawal *WithdrawalJSON\<close> declares a nil pointer, and nothing assigns it
  before \<^verbatim>\<open>row.Scan(&withdrawal.GUID, ...)\<close>. Go evaluates the arguments of a call
  before the call, and taking the address of a field through a nil pointer panics, so
  the panic comes before \<open>Scan\<close> looks at the row. The error of \<open>Scan\<close> is returned as it
  is: this method has no \<open>errors.Is(err, sql.ErrNoRows)\<close> test.
\<close>

definition GetWithdrawalStatus :: "database \<Rightarrow> string \<Rightarrow> WithdrawalJSON option outcome" where
  "GetWithdrawalStatus db hash =
     (let withdrawal = (None :: WithdrawalJSON option);
          row = selectWithdrawalStatement db hash
      in case withdrawal of
           None \<Rightarrow> Panicked NilPointerDereference
         | Some target \<Rightarrow>
             (case Scan row of
                Inl err \<Rightarrow> Failed err
              | Inr r \<Rightarrow> Returned (Some (scan_withdrawal_status target r))))"


section \<open>Definitions used to state the properties\<close>

subsection \<open>What a write may do to the rows already stored\<close>

text \<open>A withdrawal row with its \<open>l1_block_hash\<close> column blanked: two rows that agree after
  blanking differ in that column at most.\<close>

definition forget_l1 :: "withdrawal_row \<Rightarrow> withdrawal_row" where
  "forget_l1 x = x\<lparr>w_l1_block_hash := None\<rparr>"

text \<open>\<open>only_grows db db'\<close>: every table of \<open>db'\<close> starts with the rows of \<open>db\<close>, in the same
  order and unchanged, except that a withdrawal row may differ in \<open>l1_block_hash\<close>.\<close>

definition only_grows :: "database \<Rightarrow> database \<Rightarrow> bool" where
  "only_grows db db' =
     (prefix (l1_blocks db) (l1_blocks db') \<and>
      prefix (l2_blocks db) (l2_blocks db') \<and>
      prefix (l1_tokens db) (l1_tokens db') \<and>
      prefix (l2_tokens db) (l2_tokens db') \<and>
      prefix (deposits db) (deposits db') \<and>
      prefix (map forget_l1 (withdrawals db)) (map forget_l1 (withdrawals db')))"

text \<open>The effect of finalization on a stored row: a row whose \<open>tx_hash\<close> is among \<open>hs\<close>
  gets \<open>l1_block_hash = h\<close>, every other row and every other column stays.\<close>

definition finalized_by :: "string set \<Rightarrow> string \<Rightarrow> withdrawal_row \<Rightarrow> withdrawal_row" where
  "finalized_by hs h x = (if w_tx_hash x \<in> hs then x\<lparr>w_l1_block_hash := Some h\<rparr> else x)"

subsection \<open>A listing and its pages\<close>







subsection \<open>Sample data: the example of section 8 of the specification\<close>

text \<open>No backend fault; the n-th identifier is n+1 letters g.\<close>

definition env0 :: env where
  "env0 = \<lparr>NewGUID = (\<lambda>n. replicate (Suc n) (CHR ''g'')), fault = (\<lambda>n. None)\<rparr>"

text \<open>The connection is lost at the statement with index 2 of a unit of work.\<close>

definition env_lost :: env where
  "env_lost =
     \<lparr>NewGUID = (\<lambda>n. replicate (Suc n) (CHR ''g'')),
      fault = (\<lambda>n. if n = 2 then Some (BackendError ''connection lost'') else None)\<rparr>"

definition token_T1 :: Token where
  "token_T1 = \<lparr>Address = ''0xT1'', Name = ''Token One'', Symbol = ''ONE'', Decimals = 18\<rparr>"

definition token_T2 :: Token where
  "token_T2 = \<lparr>Address = ''0xT2'', Name = ''Token Two'', Symbol = ''TWO'', Decimals = 18\<rparr>"

definition withdrawal_abc :: Withdrawal where
  "withdrawal_abc =
     \<lparr>FromAddress = ''0xA1'', ToAddress = ''0xB2'', L1Token = ''0xT1'', L2Token = ''0xT2'',
      Amount = 100, TxHash = ''0xabc'', LogIndex = 0, Data = []\<rparr>"

definition deposit_d1 :: Deposit where
  "deposit_d1 =
     \<lparr>FromAddress = ''0xA1'', ToAddress = ''0xB2'', L1Token = ''0xT1'', L2Token = ''0xT2'',
      Amount = 7, TxHash = ''0xd1'', LogIndex = 1, Data = []\<rparr>"

definition deposit_d2 :: Deposit where
  "deposit_d2 =
     \<lparr>FromAddress = ''0xA1'', ToAddress = ''0xB2'', L1Token = ''0xT9'', L2Token = ''0xT2'',
      Amount = 9, TxHash = ''0xd2'', LogIndex = 2, Data = []\<rparr>"

text \<open>The origin block O1 carries a deposit and the finalization of 0xabc.\<close>

definition block_O1 :: IndexedL1Block where
  "block_O1 =
     \<lparr>L1_Hash = ''0xO1'', L1_ParentHash = ''0xO0'', L1_Number = 1, L1_Timestamp = 10,
      L1_Deposits = [deposit_d1], L1_Withdrawals = [withdrawal_abc]\<rparr>"

text \<open>The same finalization in a block that carries no deposit.\<close>

definition block_O2 :: IndexedL1Block where
  "block_O2 =
     \<lparr>L1_Hash = ''0xO2'', L1_ParentHash = ''0xO1'', L1_Number = 2, L1_Timestamp = 20,
      L1_Deposits = [], L1_Withdrawals = [withdrawal_abc]\<rparr>"

text \<open>A block with two deposits, the second for a token nobody registered.\<close>

definition block_O3 :: IndexedL1Block where
  "block_O3 =
     \<lparr>L1_Hash = ''0xO3'', L1_ParentHash = ''0xO2'', L1_Number = 3, L1_Timestamp = 30,
      L1_Deposits = [deposit_d1, deposit_d2], L1_Withdrawals = []\<rparr>"

text \<open>The destination block D1 carries the initiation of 0xabc.\<close>

definition block_D1 :: IndexedL2Block where
  "block_D1 =
     \<lparr>L2_Hash = ''0xD1'', L2_ParentHash = ''0xD0'', L2_Number = 1, L2_Timestamp = 5,
      L2_Withdrawals = [withdrawal_abc]\<rparr>"

text \<open>Both tokens registered, nothing else.\<close>

definition db_tokens :: database where
  "db_tokens =
     snd (AddL2Token env0 ''0xT2'' token_T2 (snd (AddL1Token env0 ''0xT1'' token_T1 empty_database)))"

text \<open>0xabc initiated in D1.\<close>

definition db_initiated :: database where
  "db_initiated = snd (AddIndexedL2Block env0 block_D1 db_tokens)"

text \<open>0xabc initiated in D1, then finalized in O1.\<close>

definition db_finalized :: database where
  "db_finalized = snd (AddIndexedL1Block env0 block_O1 db_initiated)"

text \<open>0xabc finalized in O1 before any destination block arrived.\<close>

definition db_finalized_first :: database where
  "db_finalized_first = snd (AddIndexedL1Block env0 block_O1 db_tokens)"

text \<open>A database for the listings. O4 is older than O1 and arrives after it; it carries a
  deposit of 0xA1 and a deposit of another sender. D2 carries a second withdrawal of 0xA1
  and one for a token nobody registered.\<close>

definition deposit_d3 :: Deposit where
  "deposit_d3 =
     \<lparr>FromAddress = ''0xA1'', ToAddress = ''0xB2'', L1Token = ''0xT1'', L2Token = ''0xT2'',
      Amount = 3, TxHash = ''0xd3'', LogIndex = 3, Data = []\<rparr>"

definition deposit_d4 :: Deposit where
  "deposit_d4 =
     \<lparr>FromAddress = ''0xC3'', ToAddress = ''0xB2'', L1Token = ''0xT1'', L2Token = ''0xT2'',
      Amount = 4, TxHash = ''0xd4'', LogIndex = 4, Data = []\<rparr>"

definition block_O4 :: IndexedL1Block where
  "block_O4 =
     \<lparr>L1_Hash = ''0xO4'', L1_ParentHash = ''0xO3'', L1_Number = 4, L1_Timestamp = 5,
      L1_Deposits = [deposit_d3, deposit_d4], L1_Withdrawals = []\<rparr>"

definition withdrawal_def :: Withdrawal where
  "withdrawal_def =
     \<lparr>FromAddress = ''0xA1'', ToAddress = ''0xB2'', L1Token = ''0xT1'', L2Token = ''0xT2'',
      Amount = 200, TxHash = ''0xdef'', LogIndex = 1, Data = []\<rparr>"

definition withdrawal_ghi :: Withdrawal where
  "withdrawal_ghi =
     \<lparr>FromAddress = ''0xA1'', ToAddress = ''0xB2'', L1Token = ''0xT1'', L2Token = ''0xT8'',
      Amount = 300, TxHash = ''0xghi'', LogIndex = 2, Data = []\<rparr>"

definition block_D2 :: IndexedL2Block where
  "block_D2 =
     \<lparr>L2_Hash = ''0xD2'', L2_ParentHash = ''0xD1'', L2_Number = 2, L2_Timestamp = 15,
      L2_Withdrawals = [withdrawal_def, withdrawal_ghi]\<rparr>"

definition db_listing :: database where
  "db_listing =
     snd (AddIndexedL1Block env0 block_O4
       (snd (AddIndexedL1Block env0 block_O3
         (snd (AddIndexedL2Block env0 block_D2 db_finalized)))))"

text \<open>The finalization of 0xghi, whose destination token is not registered, arrives in
  O5 together with a deposit.\<close>

definition block_O5 :: IndexedL1Block where
  "block_O5 =
     \<lparr>L1_Hash = ''0xO5'', L1_ParentHash = ''0xO4'', L1_Number = 5, L1_Timestamp = 50,
      L1_Deposits = [deposit_d3], L1_Withdrawals = [withdrawal_ghi]\<rparr>"

definition db_unregistered :: database where
  "db_unregistered = snd (AddIndexedL1Block env0 block_O5 db_listing)"


section \<open>Properties\<close>

subsection \<open>Every write only grows the tables\<close>

lemma only_grows_refl: "only_grows db db"
  by (simp add: only_grows_def)

lemma only_grows_trans: "only_grows a b \<Longrightarrow> only_grows b c \<Longrightarrow> only_grows a c"
  unfolding only_grows_def by (meson prefix_order.trans)

lemma forget_set_l1: "forget_l1 (set_l1_block_hash h v x) = forget_l1 x"
  by (simp add: forget_l1_def set_l1_block_hash_def)

lemma forget_comp_set_l1: "forget_l1 \<circ> set_l1_block_hash h v = forget_l1"
  by (rule ext) (simp add: forget_set_l1)

lemma insertL1TokenStatement_grows: "insertL1TokenStatement r db = Inr db' \<Longrightarrow> only_grows db db'"
  by (auto simp: insertL1TokenStatement_def only_grows_def split: if_splits)

lemma insertL2TokenStatement_grows: "insertL2TokenStatement r db = Inr db' \<Longrightarrow> only_grows db db'"
  by (auto simp: insertL2TokenStatement_def only_grows_def split: if_splits)

lemma insertL1BlockStatement_grows: "insertL1BlockStatement r db = Inr db' \<Longrightarrow> only_grows db db'"
  by (auto simp: insertL1BlockStatement_def only_grows_def split: if_splits)

lemma insertL2BlockStatement_grows: "insertL2BlockStatement r db = Inr db' \<Longrightarrow> only_grows db db'"
  by (auto simp: insertL2BlockStatement_def only_grows_def split: if_splits)

lemma insertDepositStatement_grows: "insertDepositStatement r db = Inr db' \<Longrightarrow> only_grows db db'"
  by (auto simp: insertDepositStatement_def only_grows_def split: if_splits)

lemma insertWithdrawalStatementL1_grows:
  "insertWithdrawalStatementL1 r db = Inr db' \<Longrightarrow> only_grows db db'"
  by (auto simp: insertWithdrawalStatementL1_def only_grows_def forget_comp_set_l1 split: if_splits)

lemma insertWithdrawalStatementL2_grows:
  "insertWithdrawalStatementL2 r db = Inr db' \<Longrightarrow> only_grows db db'"
  by (auto simp: insertWithdrawalStatementL2_def only_grows_def split: if_splits)

lemma Exec_grows:
  assumes "Exec e stmt t = Inr t'"
    and "\<And>g db db'. stmt g db = Inr db' \<Longrightarrow> only_grows db db'"
  shows "only_grows (work t) (work t')"
  using assms by (auto simp: Exec_def split: option.splits sum.splits)

lemma insert_deposits_grows:
  "insert_deposits e h ds t = Inr t' \<Longrightarrow> only_grows (work t) (work t')"
proof (induction ds arbitrary: t)
  case Nil
  then show ?case by (simp add: only_grows_refl)
next
  case (Cons d ds)
  from Cons.prems obtain t1 where
    step: "Exec e (\<lambda>guid. insertDepositStatement (deposit_values guid d h)) t = Inr t1"
    and rest: "insert_deposits e h ds t1 = Inr t'"
    by (auto split: sum.splits)
  have "only_grows (work t) (work t1)"
    using step by (rule Exec_grows) (rule insertDepositStatement_grows)
  moreover have "only_grows (work t1) (work t')"
    using rest by (rule Cons.IH)
  ultimately show ?case by (rule only_grows_trans)
qed

lemma upsert_withdrawals_grows:
  "upsert_withdrawals e h ws t = Inr t' \<Longrightarrow> only_grows (work t) (work t')"
proof (induction ws arbitrary: t)
  case Nil
  then show ?case by (simp add: only_grows_refl)
next
  case (Cons w ws)
  from Cons.prems obtain t1 where
    step: "Exec e (\<lambda>guid. insertWithdrawalStatementL1 (withdrawal_values_l1 guid w h)) t = Inr t1"
    and rest: "upsert_withdrawals e h ws t1 = Inr t'"
    by (auto split: sum.splits)
  have "only_grows (work t) (work t1)"
    using step by (rule Exec_grows) (rule insertWithdrawalStatementL1_grows)
  moreover have "only_grows (work t1) (work t')"
    using rest by (rule Cons.IH)
  ultimately show ?case by (rule only_grows_trans)
qed

lemma insert_withdrawals_grows:
  "insert_withdrawals e h ws t = Inr t' \<Longrightarrow> only_grows (work t) (work t')"
proof (induction ws arbitrary: t)
  case Nil
  then show ?case by (simp add: only_grows_refl)
next
  case (Cons w ws)
  from Cons.prems obtain t1 where
    step: "Exec e (\<lambda>guid. insertWithdrawalStatementL2 (withdrawal_values_l2 guid w h)) t = Inr t1"
    and rest: "insert_withdrawals e h ws t1 = Inr t'"
    by (auto split: sum.splits)
  have "only_grows (work t) (work t1)"
    using step by (rule Exec_grows) (rule insertWithdrawalStatementL2_grows)
  moreover have "only_grows (work t1) (work t')"
    using rest by (rule Cons.IH)
  ultimately show ?case by (rule only_grows_trans)
qed

lemma AddIndexedL1Block_body_grows:
  assumes "AddIndexedL1Block_body e block t = Inr t'"
  shows "only_grows (work t) (work t')"
proof -
  from assms obtain t1 where
    s1: "Exec e (\<lambda>_. insertL1BlockStatement (l1_block_values block)) t = Inr t1"
    and r1: "(if length (L1_Deposits block) = 0 then Inr t1
          else
            (case insert_deposits e (L1_Hash block) (L1_Deposits block) t1 of
               Inl err \<Rightarrow> Inl err
             | Inr t2 \<Rightarrow>
                 if length (L1_Withdrawals block) = 0 then Inr t2
                 else upsert_withdrawals e (L1_Hash block) (L1_Withdrawals block) t2)) = Inr t'"
    by (auto simp: AddIndexedL1Block_body_def split: sum.splits)
  have g1: "only_grows (work t) (work t1)"
    using s1 by (rule Exec_grows) (rule insertL1BlockStatement_grows)
  have "only_grows (work t1) (work t')"
  proof (cases "length (L1_Deposits block) = 0")
    case True
    with r1 show ?thesis by (simp add: only_grows_refl)
  next
    case False
    with r1 obtain t2 where
      s2: "insert_deposits e (L1_Hash block) (L1_Deposits block) t1 = Inr t2"
      and r2: "(if length (L1_Withdrawals block) = 0 then Inr t2
                 else upsert_withdrawals e (L1_Hash block) (L1_Withdrawals block) t2) = Inr t'"
      by (auto split: sum.splits)
    have g2: "only_grows (work t1) (work t2)"
      using s2 by (rule insert_deposits_grows)
    have "only_grows (work t2) (work t')"
      using r2 by (auto simp: only_grows_refl upsert_withdrawals_grows split: if_splits)
    with g2 show ?thesis by (rule only_grows_trans)
  qed
  with g1 show ?thesis by (rule only_grows_trans)
qed

lemma AddIndexedL2Block_body_grows:
  assumes "AddIndexedL2Block_body e block t = Inr t'"
  shows "only_grows (work t) (work t')"
proof -
  from assms obtain t1 where
    s1: "Exec e (\<lambda>_. insertL2BlockStatement (l2_block_values block)) t = Inr t1"
    and r1: "(if length (L2_Withdrawals block) = 0 then Inr t1
          else insert_withdrawals e (L2_Hash block) (L2_Withdrawals block) t1) = Inr t'"
    by (auto simp: AddIndexedL2Block_body_def split: sum.splits)
  have g1: "only_grows (work t) (work t1)"
    using s1 by (rule Exec_grows) (rule insertL2BlockStatement_grows)
  have "only_grows (work t1) (work t')"
    using r1 by (auto simp: only_grows_refl insert_withdrawals_grows split: if_splits)
  with g1 show ?thesis by (rule only_grows_trans)
qed

lemma txn_grows:
  assumes "\<And>t t'. body t = Inr t' \<Longrightarrow> only_grows (work t) (work t')"
  shows "only_grows db (snd (txn db body))"
proof (cases "body \<lparr>work = db, issued = 0\<rparr>")
  case (Inl err)
  then show ?thesis by (simp add: txn_def only_grows_refl)
next
  case (Inr t')
  from assms [OF Inr] Inr show ?thesis by (simp add: txn_def)
qed

lemma AddIndexedL1Block_grows: "only_grows db (snd (AddIndexedL1Block e block db))"
  unfolding AddIndexedL1Block_def by (rule txn_grows) (rule AddIndexedL1Block_body_grows)

lemma AddIndexedL2Block_grows: "only_grows db (snd (AddIndexedL2Block e block db))"
  unfolding AddIndexedL2Block_def by (rule txn_grows) (rule AddIndexedL2Block_body_grows)

lemma AddL1Token_grows: "only_grows db (snd (AddL1Token e a tok db))"
  unfolding AddL1Token_def
  by (rule txn_grows) (erule Exec_grows, rule insertL1TokenStatement_grows)

lemma AddL2Token_grows: "only_grows db (snd (AddL2Token e a tok db))"
  unfolding AddL2Token_def
  by (rule txn_grows) (erule Exec_grows, rule insertL2TokenStatement_grows)

subsection \<open>Unfolding the model on sample data\<close>

lemmas sample_defs = env0_def env_lost_def token_T1_def token_T2_def withdrawal_abc_def
  deposit_d1_def deposit_d2_def block_O1_def block_O2_def block_O3_def block_D1_def
  db_tokens_def db_initiated_def db_finalized_def db_finalized_first_def empty_database_def
  deposit_d3_def deposit_d4_def block_O4_def withdrawal_def_def withdrawal_ghi_def
  block_D2_def block_O5_def db_listing_def db_unregistered_def

lemmas write_defs = AddL1Token_def AddL2Token_def token_values_def
  insertL1TokenStatement_def insertL2TokenStatement_def
  AddIndexedL1Block_def AddIndexedL1Block_body_def AddIndexedL2Block_def
  AddIndexedL2Block_body_def txn_def Exec_def
  insertL1BlockStatement_def insertL2BlockStatement_def insertDepositStatement_def
  insertWithdrawalStatementL1_def insertWithdrawalStatementL2_def
  l1_block_values_def l2_block_values_def deposit_values_def withdrawal_values_l1_def
  withdrawal_values_l2_def l1_fk_ok_def l2_fk_ok_def set_l1_block_hash_def

lemmas read_defs = GetDepositsByAddress_def GetWithdrawalsByAddress_def GetWithdrawalStatus_def
  deposits_join_def withdrawals_join_def selectWithdrawalStatement_def
  selectDepositsStatement_def selectWithdrawalsStatement_def
  selectDepositCountStatement_def selectWithdrawalCountStatement_def
  scan_deposit_def scan_withdrawal_def scan_withdrawal_status_def Scan_def Query_def

subsection \<open>Which statements touch the withdrawals table\<close>

lemma Exec_withdrawals_same:
  assumes "Exec e stmt t = Inr t'"
    and "\<And>g db db'. stmt g db = Inr db' \<Longrightarrow> withdrawals db' = withdrawals db"
  shows "withdrawals (work t') = withdrawals (work t)"
  using assms by (auto simp: Exec_def split: option.splits sum.splits)

lemma insertL1BlockStatement_withdrawals:
  "insertL1BlockStatement r db = Inr db' \<Longrightarrow> withdrawals db' = withdrawals db"
  by (auto simp: insertL1BlockStatement_def split: if_splits)

lemma insertDepositStatement_withdrawals:
  "insertDepositStatement r db = Inr db' \<Longrightarrow> withdrawals db' = withdrawals db"
  by (auto simp: insertDepositStatement_def split: if_splits)

lemma insert_deposits_withdrawals:
  "insert_deposits e h ds t = Inr t' \<Longrightarrow> withdrawals (work t') = withdrawals (work t)"
proof (induction ds arbitrary: t)
  case Nil
  then show ?case by simp
next
  case (Cons d ds)
  from Cons.prems obtain t1 where
    step: "Exec e (\<lambda>guid. insertDepositStatement (deposit_values guid d h)) t = Inr t1"
    and rest: "insert_deposits e h ds t1 = Inr t'"
    by (auto split: sum.splits)
  have "withdrawals (work t1) = withdrawals (work t)"
    using step by (rule Exec_withdrawals_same) (rule insertDepositStatement_withdrawals)
  with Cons.IH [OF rest] show ?case by simp
qed

lemma insertL2BlockStatement_withdrawals:
  "insertL2BlockStatement r db = Inr db' \<Longrightarrow> withdrawals db' = withdrawals db"
  by (auto simp: insertL2BlockStatement_def split: if_splits)

subsection \<open>The upsert loop on the rows already stored\<close>

lemma finalized_by_empty: "finalized_by {} h x = x"
  by (simp add: finalized_by_def)

lemma finalized_by_twice:
  "finalized_by hs h (finalized_by {a} h x) = finalized_by (insert a hs) h x"
  by (simp add: finalized_by_def)

lemma insertWithdrawalStatementL1_existing:
  assumes "insertWithdrawalStatementL1 (withdrawal_values_l1 g w h) db = Inr db'"
  shows "take (length (withdrawals db)) (withdrawals db') =
           map (finalized_by {TxHash w} h) (withdrawals db)"
proof (cases "TxHash w \<in> set (map w_tx_hash (withdrawals db))")
  case True
  with assms have "withdrawals db' =
      map (set_l1_block_hash (TxHash w) (Some h)) (withdrawals db)"
    by (auto simp: insertWithdrawalStatementL1_def withdrawal_values_l1_def split: if_splits)
  moreover have "set_l1_block_hash (TxHash w) (Some h) = finalized_by {TxHash w} h"
    by (rule ext) (simp add: set_l1_block_hash_def finalized_by_def)
  ultimately show ?thesis by simp
next
  case False
  with assms have "withdrawals db' = withdrawals db @ [withdrawal_values_l1 g w h]"
    by (auto simp: insertWithdrawalStatementL1_def withdrawal_values_l1_def split: if_splits)
  moreover from False have "map (finalized_by {TxHash w} h) (withdrawals db) = withdrawals db"
    by (intro map_idI) (force simp: finalized_by_def)
  ultimately show ?thesis by simp
qed

lemma upsert_withdrawals_existing:
  "upsert_withdrawals e h ws t = Inr t' \<Longrightarrow>
     take (length (withdrawals (work t))) (withdrawals (work t')) =
       map (finalized_by (TxHash ` set ws) h) (withdrawals (work t))"
proof (induction ws arbitrary: t)
  case Nil
  then show ?case by (simp add: finalized_by_empty)
next
  case (Cons w ws)
  let ?W = "withdrawals (work t)"
  from Cons.prems obtain t1 where
    step: "Exec e (\<lambda>guid. insertWithdrawalStatementL1 (withdrawal_values_l1 guid w h)) t = Inr t1"
    and rest: "upsert_withdrawals e h ws t1 = Inr t'"
    by (auto split: sum.splits)
  let ?W1 = "withdrawals (work t1)"
  let ?W' = "withdrawals (work t')"
  from step have one: "take (length ?W) ?W1 = map (finalized_by {TxHash w} h) ?W"
    by (auto simp: Exec_def insertWithdrawalStatementL1_existing split: option.splits sum.splits)
  then have "length (take (length ?W) ?W1) = length ?W" by simp
  then have le: "length ?W \<le> length ?W1" by simp
  from Cons.IH [OF rest]
  have ih: "take (length ?W1) ?W' = map (finalized_by (TxHash ` set ws) h) ?W1" .
  have "take (length ?W) ?W' = take (length ?W) (take (length ?W1) ?W')"
    using le by (simp add: min_def)
  also have "\<dots> = map (finalized_by (TxHash ` set ws) h) (take (length ?W) ?W1)"
    by (simp add: ih take_map)
  also have "\<dots> = map (finalized_by (insert (TxHash w) (TxHash ` set ws)) h) ?W"
    by (simp add: one finalized_by_twice)
  finally show ?case by simp
qed

lemma AddIndexedL1Block_body_existing:
  assumes "AddIndexedL1Block_body e block t = Inr t'"
    and "L1_Deposits block \<noteq> []"
  shows "take (length (withdrawals (work t))) (withdrawals (work t')) =
           map (finalized_by (TxHash ` set (L1_Withdrawals block)) (L1_Hash block))
             (withdrawals (work t))"
proof -
  from assms obtain t1 t2 where
    s1: "Exec e (\<lambda>_. insertL1BlockStatement (l1_block_values block)) t = Inr t1"
    and s2: "insert_deposits e (L1_Hash block) (L1_Deposits block) t1 = Inr t2"
    and s3: "(if length (L1_Withdrawals block) = 0 then Inr t2
                 else upsert_withdrawals e (L1_Hash block) (L1_Withdrawals block) t2) = Inr t'"
    by (auto simp: AddIndexedL1Block_body_def split: sum.splits)
  have w1: "withdrawals (work t1) = withdrawals (work t)"
    using s1 by (rule Exec_withdrawals_same) (rule insertL1BlockStatement_withdrawals)
  have w2: "withdrawals (work t2) = withdrawals (work t1)"
    using s2 by (rule insert_deposits_withdrawals)
  have "upsert_withdrawals e (L1_Hash block) (L1_Withdrawals block) t2 = Inr t'"
    using s3 by (cases "L1_Withdrawals block") auto
  from upsert_withdrawals_existing [OF this] show ?thesis
    by (simp add: w1 w2)
qed

lemma prefix_take_same: "prefix xs ys \<Longrightarrow> take (length xs) ys = xs"
  by (auto simp: prefix_def)

subsection \<open>The plain insert loop on a known transaction hash\<close>

lemma insert_withdrawals_conflict:
  "wd \<in> set ws \<Longrightarrow> TxHash wd \<in> set (map w_tx_hash (withdrawals (work t))) \<Longrightarrow>
     \<exists>err. insert_withdrawals e h ws t = Inl err"
proof (induction ws arbitrary: t)
  case Nil
  then show ?case by simp
next
  case (Cons w ws)
  show ?case
  proof (cases "Exec e (\<lambda>guid. insertWithdrawalStatementL2 (withdrawal_values_l2 guid w h)) t")
    case (Inl err)
    then show ?thesis by simp
  next
    case (Inr t1)
    then have w1: "withdrawals (work t1) =
        withdrawals (work t) @ [withdrawal_values_l2 (NewGUID e (issued t)) w h]"
      and fresh: "TxHash w \<notin> set (map w_tx_hash (withdrawals (work t)))"
      by (auto simp: Exec_def insertWithdrawalStatementL2_def withdrawal_values_l2_def
          split: option.splits sum.splits if_splits)
    from fresh Cons.prems have "wd \<in> set ws" by auto
    moreover from Cons.prems w1
    have "TxHash wd \<in> set (map w_tx_hash (withdrawals (work t1)))" by simp
    ultimately have "\<exists>err. insert_withdrawals e h ws t1 = Inl err" by (rule Cons.IH)
    with Inr show ?thesis by simp
  qed
qed

subsection \<open>The rows of the sample databases\<close>





subsection \<open>A listing and its pages\<close>











subsection \<open>Rows whose token is not registered\<close>








subsection \<open>A statement that fails inside a loop\<close>

lemma insert_deposits_append:
  "insert_deposits e h (xs @ ys) t =
     (case insert_deposits e h xs t of Inl err \<Rightarrow> Inl err | Inr t' \<Rightarrow> insert_deposits e h ys t')"
  by (induction xs arbitrary: t) (simp_all split: sum.splits)

lemma upsert_withdrawals_append:
  "upsert_withdrawals e h (xs @ ys) t =
     (case upsert_withdrawals e h xs t of Inl err \<Rightarrow> Inl err | Inr t' \<Rightarrow> upsert_withdrawals e h ys t')"
  by (induction xs arbitrary: t) (simp_all split: sum.splits)

lemma insert_withdrawals_append:
  "insert_withdrawals e h (xs @ ys) t =
     (case insert_withdrawals e h xs t of Inl err \<Rightarrow> Inl err | Inr t' \<Rightarrow> insert_withdrawals e h ys t')"
  by (induction xs arbitrary: t) (simp_all split: sum.splits)

lemma insert_deposits_fails:
  assumes "insert_deposits e h ds1 t1 = Inr t2"
    and "Exec e (\<lambda>guid. insertDepositStatement (deposit_values guid d h)) t2 = Inl err"
  shows "insert_deposits e h (ds1 @ d # ds2) t1 = Inl err"
  using assms by (simp add: insert_deposits_append)

lemma upsert_withdrawals_fails:
  assumes "upsert_withdrawals e h ws1 t2 = Inr t3"
    and "Exec e (\<lambda>guid. insertWithdrawalStatementL1 (withdrawal_values_l1 guid w h)) t3 = Inl err"
  shows "upsert_withdrawals e h (ws1 @ w # ws2) t2 = Inl err"
  using assms by (simp add: upsert_withdrawals_append)

lemma insert_withdrawals_fails:
  assumes "insert_withdrawals e h ws1 t1 = Inr t3"
    and "Exec e (\<lambda>guid. insertWithdrawalStatementL2 (withdrawal_values_l2 guid w h)) t3 = Inl err"
  shows "insert_withdrawals e h (ws1 @ w # ws2) t1 = Inl err"
  using assms by (simp add: insert_withdrawals_append)

section \<open>The claims of the specification\<close>

subsection \<open>Correlation of the two phases of a withdrawal\<close>

text \<open>
  Claim C1 (order-independent correlation of a withdrawal). The specification asks that
  initiation then finalization, finalization then initiation, and a duplicate delivery of
  the initiation all end with one row for the transaction hash that carries both block
  hashes. The code does not do this for finalization first: \<open>AddIndexedL1Block\<close> of O1 on
  the database with the two tokens stores the row of 0xabc with \<open>l1_block_hash\<close> 0xO1 and
  no \<open>l2_block_hash\<close>; \<open>AddIndexedL2Block\<close> of D1 then runs the plain INSERT of
  \<open>insertWithdrawalStatement\<close> (db.go, lines 283 to 288, no ON CONFLICT clause), meets the
  unique index on \<open>tx_hash\<close>, returns that error and is rolled back. The row keeps a NULL
  \<open>l2_block_hash\<close> and the block D1 is not stored.
\<close>

theorem finalization_first_loses_initiation:
  "AddIndexedL1Block env0 block_O1 db_tokens = (None, db_finalized_first) \<and>
   AddIndexedL2Block env0 block_D1 db_finalized_first =
     (Some (UniqueViolation ''withdrawals.tx_hash''), db_finalized_first) \<and>
   map (\<lambda>w. (w_tx_hash w, w_l1_block_hash w, w_l2_block_hash w))
     (withdrawals db_finalized_first) = [(''0xabc'', Some ''0xO1'', None)] \<and>
   l2_blocks db_finalized_first = []"
  by (simp add: sample_defs write_defs)

text \<open>
  Claim C2 (a destination-chain ingestion that meets a known transaction hash). The
  specification asks that it neither fails nor duplicates. In the code it always fails:
  whenever a withdrawal of the block has a \<open>tx_hash\<close> that is already stored,
  \<open>AddIndexedL2Block\<close> returns an error and leaves the database as it was, whatever the
  backend does.
\<close>

theorem l2_ingestion_fails_on_known_tx_hash:
  assumes "wd \<in> set (L2_Withdrawals block)"
    and "TxHash wd \<in> set (map w_tx_hash (withdrawals db))"
  shows "\<exists>err. AddIndexedL2Block e block db = (Some err, db)"
proof (cases "Exec e (\<lambda>_. insertL2BlockStatement (l2_block_values block)) \<lparr>work = db, issued = 0\<rparr>")
  case (Inl err)
  then show ?thesis
    by (simp add: AddIndexedL2Block_def AddIndexedL2Block_body_def txn_def)
next
  case (Inr t1)
  then have "withdrawals (work t1) = withdrawals (work \<lparr>work = db, issued = 0\<rparr>)"
    by (rule Exec_withdrawals_same) (rule insertL2BlockStatement_withdrawals)
  with assms(2) have "TxHash wd \<in> set (map w_tx_hash (withdrawals (work t1)))" by simp
  from insert_withdrawals_conflict [OF assms(1) this]
  obtain err where "insert_withdrawals e (L2_Hash block) (L2_Withdrawals block) t1 = Inl err"
    by blast
  moreover from assms(1) have "L2_Withdrawals block \<noteq> []" by auto
  ultimately show ?thesis using Inr
    by (simp add: AddIndexedL2Block_def AddIndexedL2Block_body_def txn_def)
qed

theorem l2_ingestion_fails_on_known_tx_hash_witness:
  "withdrawal_abc \<in> set (L2_Withdrawals block_D1) \<and>
   TxHash withdrawal_abc \<in> set (map w_tx_hash (withdrawals db_finalized_first)) \<and>
   ''0xD1'' \<notin> set (map b_hash (l2_blocks db_finalized_first)) \<and>
   AddIndexedL2Block env0 block_D1 db_finalized_first =
     (Some (UniqueViolation ''withdrawals.tx_hash''), db_finalized_first)"
  using l2_ingestion_fails_on_known_tx_hash
    [of withdrawal_abc block_D1 db_finalized_first env0]
  by (simp add: sample_defs write_defs)

text \<open>
  Claim C3 (the withdrawals of an origin-chain block are processed whether or not it
  carries deposits). The code returns from the unit of work right after the block insert
  when \<open>len(block.Deposits) == 0\<close> (db.go, lines 222 to 224), before the loop over
  \<open>block.Withdrawals\<close>: for a block without deposits \<open>AddIndexedL1Block\<close> does nothing but
  insert the block row, so no withdrawal of the block is applied.
\<close>

theorem no_deposits_skips_withdrawals:
  assumes "L1_Deposits block = []"
  shows "AddIndexedL1Block e block db =
     (case fault e 0 of
        Some err \<Rightarrow> (Some err, db)
      | None \<Rightarrow>
          if L1_Hash block \<in> set (map b_hash (l1_blocks db))
          then (Some (UniqueViolation ''l1_blocks.hash''), db)
          else (None, db\<lparr>l1_blocks := l1_blocks db @ [l1_block_values block]\<rparr>))"
  using assms
  by (simp add: AddIndexedL1Block_def AddIndexedL1Block_body_def txn_def Exec_def
      insertL1BlockStatement_def l1_block_values_def split: option.splits)

theorem no_deposits_skips_withdrawals_witness:
  "L1_Deposits block_O2 = [] \<and> L1_Withdrawals block_O2 = [withdrawal_abc] \<and>
   AddIndexedL1Block env0 block_O2 db_initiated =
     (None, db_initiated\<lparr>l1_blocks := [l1_block_values block_O2]\<rparr>) \<and>
   map (\<lambda>w. (w_tx_hash w, w_l1_block_hash w, w_l2_block_hash w))
     (withdrawals (snd (AddIndexedL1Block env0 block_O2 db_initiated))) =
     [(''0xabc'', None, Some ''0xD1'')]"
  using no_deposits_skips_withdrawals [of block_O2 env0 db_initiated]
  by (simp add: sample_defs write_defs)

subsection \<open>The frame of the upsert\<close>

text \<open>
  Claim C7 (the upsert of an origin-chain ingestion changes \<open>l1_block_hash\<close> only). When
  \<open>AddIndexedL1Block\<close> succeeds on a block with deposits, the withdrawal rows stored before
  the call are afterwards the same rows in the same positions, where a row whose \<open>tx_hash\<close>
  is the hash of a withdrawal of the block has \<open>l1_block_hash\<close> set to the hash of the
  block and every other row is unchanged. And for every call, whatever it returns, the
  rows stored before agree with the rows at their positions afterwards in every column
  but \<open>l1_block_hash\<close>: amount, addresses, tokens, \<open>l2_block_hash\<close>, log index, data and
  guid stay.
\<close>

theorem upsert_changes_l1_block_hash_only:
  "(AddIndexedL1Block e block db = (None, db') \<and> L1_Deposits block \<noteq> [] \<longrightarrow>
      take (length (withdrawals db)) (withdrawals db') =
        map (finalized_by (TxHash ` set (L1_Withdrawals block)) (L1_Hash block))
          (withdrawals db)) \<and>
   map forget_l1
     (take (length (withdrawals db)) (withdrawals (snd (AddIndexedL1Block e block db)))) =
     map forget_l1 (withdrawals db)"
proof (intro conjI impI)
  assume a: "AddIndexedL1Block e block db = (None, db') \<and> L1_Deposits block \<noteq> []"
  then obtain t' where b: "AddIndexedL1Block_body e block \<lparr>work = db, issued = 0\<rparr> = Inr t'"
    and d: "db' = work t'"
    by (auto simp: AddIndexedL1Block_def txn_def split: sum.splits)
  from AddIndexedL1Block_body_existing [OF b] a d
  show "take (length (withdrawals db)) (withdrawals db') =
        map (finalized_by (TxHash ` set (L1_Withdrawals block)) (L1_Hash block))
          (withdrawals db)"
    by simp
next
  have "prefix (map forget_l1 (withdrawals db))
          (map forget_l1 (withdrawals (snd (AddIndexedL1Block e block db))))"
    using AddIndexedL1Block_grows [of db e block] by (simp add: only_grows_def)
  from prefix_take_same [OF this]
  show "map forget_l1
     (take (length (withdrawals db)) (withdrawals (snd (AddIndexedL1Block e block db)))) =
     map forget_l1 (withdrawals db)"
    by (simp add: take_map)
qed

theorem upsert_changes_l1_block_hash_only_witness:
  "AddIndexedL1Block env0 block_O1 db_initiated = (None, db_finalized) \<and>
   L1_Deposits block_O1 \<noteq> [] \<and>
   map w_l1_block_hash (withdrawals db_initiated) = [None] \<and>
   withdrawals db_finalized =
     map (finalized_by {''0xabc''} ''0xO1'') (withdrawals db_initiated) \<and>
   map w_l1_block_hash (withdrawals db_finalized) = [Some ''0xO1''] \<and>
   map forget_l1 (withdrawals db_finalized) = map forget_l1 (withdrawals db_initiated)"
  using upsert_changes_l1_block_hash_only [of env0 block_O1 db_initiated db_finalized]
  by (simp add: sample_defs write_defs finalized_by_def forget_l1_def)

subsection \<open>Atomic admission of a block\<close>

text \<open>
  Claim C4 (atomic block admission). If a statement of \<open>AddIndexedL1Block\<close> or
  \<open>AddIndexedL2Block\<close> fails, the method returns the error of that statement and the
  database afterwards is exactly the database before the call, so that neither the block
  row nor any event row of the call is visible. The failing statement is, for an
  origin-chain block, the block insert, or the insert of a deposit \<open>d\<close> after the block
  insert and the inserts of the deposits \<open>ds1\<close> before it succeeded, or the upsert of a
  withdrawal \<open>w\<close> after the block insert, the inserts of all the deposits and the upserts of
  the withdrawals \<open>ws1\<close> before it succeeded (the upserts are reached only when the block
  carries a deposit); for a destination-chain block it is the block insert, or the insert
  of a withdrawal \<open>w\<close> after the block insert and the inserts of the withdrawals \<open>ws1\<close>
  before it succeeded. A statement fails when \<open>Exec\<close> returns an error for it, whether the
  error is the backend's or a constraint of the schema. The last two conjuncts say it from
  the result: whenever either method returns an error, the database is unchanged.
\<close>

theorem failed_ingestion_leaves_no_trace:
  "(Exec e (\<lambda>_. insertL1BlockStatement (l1_block_values b1)) \<lparr>work = db, issued = 0\<rparr> = Inl err \<longrightarrow>
      AddIndexedL1Block e b1 db = (Some err, db)) \<and>
   (Exec e (\<lambda>_. insertL1BlockStatement (l1_block_values b1)) \<lparr>work = db, issued = 0\<rparr> = Inr t1 \<and>
    L1_Deposits b1 = ds1 @ d # ds2 \<and>
    insert_deposits e (L1_Hash b1) ds1 t1 = Inr t2 \<and>
    Exec e (\<lambda>guid. insertDepositStatement (deposit_values guid d (L1_Hash b1))) t2 = Inl err \<longrightarrow>
      AddIndexedL1Block e b1 db = (Some err, db)) \<and>
   (Exec e (\<lambda>_. insertL1BlockStatement (l1_block_values b1)) \<lparr>work = db, issued = 0\<rparr> = Inr t1 \<and>
    L1_Deposits b1 \<noteq> [] \<and>
    insert_deposits e (L1_Hash b1) (L1_Deposits b1) t1 = Inr t2 \<and>
    L1_Withdrawals b1 = ws1 @ w # ws2 \<and>
    upsert_withdrawals e (L1_Hash b1) ws1 t2 = Inr t3 \<and>
    Exec e (\<lambda>guid. insertWithdrawalStatementL1 (withdrawal_values_l1 guid w (L1_Hash b1))) t3 =
      Inl err \<longrightarrow>
      AddIndexedL1Block e b1 db = (Some err, db)) \<and>
   (Exec e (\<lambda>_. insertL2BlockStatement (l2_block_values b2)) \<lparr>work = db, issued = 0\<rparr> = Inl err \<longrightarrow>
      AddIndexedL2Block e b2 db = (Some err, db)) \<and>
   (Exec e (\<lambda>_. insertL2BlockStatement (l2_block_values b2)) \<lparr>work = db, issued = 0\<rparr> = Inr t1 \<and>
    L2_Withdrawals b2 = ws1 @ w # ws2 \<and>
    insert_withdrawals e (L2_Hash b2) ws1 t1 = Inr t3 \<and>
    Exec e (\<lambda>guid. insertWithdrawalStatementL2 (withdrawal_values_l2 guid w (L2_Hash b2))) t3 =
      Inl err \<longrightarrow>
      AddIndexedL2Block e b2 db = (Some err, db)) \<and>
   (fst (AddIndexedL1Block e b1 db) \<noteq> None \<longrightarrow> snd (AddIndexedL1Block e b1 db) = db) \<and>
   (fst (AddIndexedL2Block e b2 db) \<noteq> None \<longrightarrow> snd (AddIndexedL2Block e b2 db) = db)"
proof (intro conjI impI)
  assume "Exec e (\<lambda>_. insertL1BlockStatement (l1_block_values b1)) \<lparr>work = db, issued = 0\<rparr> = Inl err"
  then show "AddIndexedL1Block e b1 db = (Some err, db)"
    by (simp add: AddIndexedL1Block_def AddIndexedL1Block_body_def txn_def)
next
  assume a: "Exec e (\<lambda>_. insertL1BlockStatement (l1_block_values b1)) \<lparr>work = db, issued = 0\<rparr> = Inr t1 \<and>
    L1_Deposits b1 = ds1 @ d # ds2 \<and>
    insert_deposits e (L1_Hash b1) ds1 t1 = Inr t2 \<and>
    Exec e (\<lambda>guid. insertDepositStatement (deposit_values guid d (L1_Hash b1))) t2 = Inl err"
  then have "insert_deposits e (L1_Hash b1) (L1_Deposits b1) t1 = Inl err"
    by (simp add: insert_deposits_fails)
  with a show "AddIndexedL1Block e b1 db = (Some err, db)"
    by (simp add: AddIndexedL1Block_def AddIndexedL1Block_body_def txn_def)
next
  assume a: "Exec e (\<lambda>_. insertL1BlockStatement (l1_block_values b1)) \<lparr>work = db, issued = 0\<rparr> = Inr t1 \<and>
    L1_Deposits b1 \<noteq> [] \<and>
    insert_deposits e (L1_Hash b1) (L1_Deposits b1) t1 = Inr t2 \<and>
    L1_Withdrawals b1 = ws1 @ w # ws2 \<and>
    upsert_withdrawals e (L1_Hash b1) ws1 t2 = Inr t3 \<and>
    Exec e (\<lambda>guid. insertWithdrawalStatementL1 (withdrawal_values_l1 guid w (L1_Hash b1))) t3 =
      Inl err"
  then have "upsert_withdrawals e (L1_Hash b1) (L1_Withdrawals b1) t2 = Inl err"
    by (simp add: upsert_withdrawals_fails)
  with a show "AddIndexedL1Block e b1 db = (Some err, db)"
    by (simp add: AddIndexedL1Block_def AddIndexedL1Block_body_def txn_def)
next
  assume "Exec e (\<lambda>_. insertL2BlockStatement (l2_block_values b2)) \<lparr>work = db, issued = 0\<rparr> = Inl err"
  then show "AddIndexedL2Block e b2 db = (Some err, db)"
    by (simp add: AddIndexedL2Block_def AddIndexedL2Block_body_def txn_def)
next
  assume a: "Exec e (\<lambda>_. insertL2BlockStatement (l2_block_values b2)) \<lparr>work = db, issued = 0\<rparr> = Inr t1 \<and>
    L2_Withdrawals b2 = ws1 @ w # ws2 \<and>
    insert_withdrawals e (L2_Hash b2) ws1 t1 = Inr t3 \<and>
    Exec e (\<lambda>guid. insertWithdrawalStatementL2 (withdrawal_values_l2 guid w (L2_Hash b2))) t3 =
      Inl err"
  then have "insert_withdrawals e (L2_Hash b2) (L2_Withdrawals b2) t1 = Inl err"
    by (simp add: insert_withdrawals_fails)
  with a show "AddIndexedL2Block e b2 db = (Some err, db)"
    by (simp add: AddIndexedL2Block_def AddIndexedL2Block_body_def txn_def)
next
  assume "fst (AddIndexedL1Block e b1 db) \<noteq> None"
  then show "snd (AddIndexedL1Block e b1 db) = db"
    by (simp add: AddIndexedL1Block_def txn_def split: sum.splits)
next
  assume "fst (AddIndexedL2Block e b2 db) \<noteq> None"
  then show "snd (AddIndexedL2Block e b2 db) = db"
    by (simp add: AddIndexedL2Block_def txn_def split: sum.splits)
qed

theorem failed_ingestion_leaves_no_trace_witness:
  "Exec env0 (\<lambda>_. insertL1BlockStatement (l1_block_values block_O1))
     \<lparr>work = db_finalized, issued = 0\<rparr> = Inl (UniqueViolation ''l1_blocks.hash'') \<and>
   AddIndexedL1Block env0 block_O1 db_finalized =
     (Some (UniqueViolation ''l1_blocks.hash''), db_finalized) \<and>
   Exec env_lost (\<lambda>_. insertL1BlockStatement (l1_block_values block_O3))
     \<lparr>work = db_tokens, issued = 0\<rparr> =
     Inr \<lparr>work = db_tokens\<lparr>l1_blocks := [l1_block_values block_O3]\<rparr>, issued = 1\<rparr> \<and>
   L1_Deposits block_O3 = [deposit_d1] @ deposit_d2 # [] \<and>
   insert_deposits env_lost ''0xO3'' [deposit_d1]
     \<lparr>work = db_tokens\<lparr>l1_blocks := [l1_block_values block_O3]\<rparr>, issued = 1\<rparr> =
     Inr \<lparr>work = db_tokens\<lparr>l1_blocks := [l1_block_values block_O3],
                             deposits := [deposit_values ''gg'' deposit_d1 ''0xO3'']\<rparr>,
          issued = 2\<rparr> \<and>
   Exec env_lost (\<lambda>guid. insertDepositStatement (deposit_values guid deposit_d2 ''0xO3''))
     \<lparr>work = db_tokens\<lparr>l1_blocks := [l1_block_values block_O3],
                        deposits := [deposit_values ''gg'' deposit_d1 ''0xO3'']\<rparr>,
      issued = 2\<rparr> = Inl (BackendError ''connection lost'') \<and>
   AddIndexedL1Block env_lost block_O3 db_tokens =
     (Some (BackendError ''connection lost''), db_tokens) \<and>
   Exec env_lost (\<lambda>_. insertL1BlockStatement (l1_block_values block_O1))
     \<lparr>work = db_initiated, issued = 0\<rparr> =
     Inr \<lparr>work = db_initiated\<lparr>l1_blocks := [l1_block_values block_O1]\<rparr>, issued = 1\<rparr> \<and>
   L1_Deposits block_O1 \<noteq> [] \<and>
   insert_deposits env_lost ''0xO1'' (L1_Deposits block_O1)
     \<lparr>work = db_initiated\<lparr>l1_blocks := [l1_block_values block_O1]\<rparr>, issued = 1\<rparr> =
     Inr \<lparr>work = db_initiated\<lparr>l1_blocks := [l1_block_values block_O1],
                                deposits := [deposit_values ''gg'' deposit_d1 ''0xO1'']\<rparr>,
          issued = 2\<rparr> \<and>
   L1_Withdrawals block_O1 = [] @ withdrawal_abc # [] \<and>
   Exec env_lost
     (\<lambda>guid. insertWithdrawalStatementL1 (withdrawal_values_l1 guid withdrawal_abc ''0xO1''))
     \<lparr>work = db_initiated\<lparr>l1_blocks := [l1_block_values block_O1],
                           deposits := [deposit_values ''gg'' deposit_d1 ''0xO1'']\<rparr>,
      issued = 2\<rparr> = Inl (BackendError ''connection lost'') \<and>
   AddIndexedL1Block env_lost block_O1 db_initiated =
     (Some (BackendError ''connection lost''), db_initiated) \<and>
   l1_blocks db_initiated = [] \<and> deposits db_initiated = [] \<and>
   map w_l1_block_hash (withdrawals db_initiated) = [None] \<and>
   Exec env0 (\<lambda>_. insertL2BlockStatement (l2_block_values block_D1))
     \<lparr>work = db_initiated, issued = 0\<rparr> = Inl (UniqueViolation ''l2_blocks.hash'') \<and>
   AddIndexedL2Block env0 block_D1 db_initiated =
     (Some (UniqueViolation ''l2_blocks.hash''), db_initiated) \<and>
   Exec env0 (\<lambda>_. insertL2BlockStatement (l2_block_values block_D1))
     \<lparr>work = db_finalized_first, issued = 0\<rparr> =
     Inr \<lparr>work = db_finalized_first\<lparr>l2_blocks := [l2_block_values block_D1]\<rparr>, issued = 1\<rparr> \<and>
   L2_Withdrawals block_D1 = [] @ withdrawal_abc # [] \<and>
   Exec env0
     (\<lambda>guid. insertWithdrawalStatementL2 (withdrawal_values_l2 guid withdrawal_abc ''0xD1''))
     \<lparr>work = db_finalized_first\<lparr>l2_blocks := [l2_block_values block_D1]\<rparr>, issued = 1\<rparr> =
     Inl (UniqueViolation ''withdrawals.tx_hash'') \<and>
   AddIndexedL2Block env0 block_D1 db_finalized_first =
     (Some (UniqueViolation ''withdrawals.tx_hash''), db_finalized_first)"
  using
    failed_ingestion_leaves_no_trace
      [where e = env0 and ?b1.0 = block_O1 and db = db_finalized
         and err = "UniqueViolation ''l1_blocks.hash''" and ?b2.0 = block_D1]
    failed_ingestion_leaves_no_trace
      [where e = env_lost and ?b1.0 = block_O3 and db = db_tokens
         and err = "BackendError ''connection lost''"
         and ?t1.0 = "\<lparr>work = db_tokens\<lparr>l1_blocks := [l1_block_values block_O3]\<rparr>, issued = 1\<rparr>"
         and ?ds1.0 = "[deposit_d1]" and d = deposit_d2 and ?ds2.0 = "[]"
         and ?t2.0 = "\<lparr>work = db_tokens\<lparr>l1_blocks := [l1_block_values block_O3],
                             deposits := [deposit_values ''gg'' deposit_d1 ''0xO3'']\<rparr>,
                        issued = 2\<rparr>"]
    failed_ingestion_leaves_no_trace
      [where e = env_lost and ?b1.0 = block_O1 and db = db_initiated
         and err = "BackendError ''connection lost''"
         and ?t1.0 = "\<lparr>work = db_initiated\<lparr>l1_blocks := [l1_block_values block_O1]\<rparr>, issued = 1\<rparr>"
         and ?t2.0 = "\<lparr>work = db_initiated\<lparr>l1_blocks := [l1_block_values block_O1],
                             deposits := [deposit_values ''gg'' deposit_d1 ''0xO1'']\<rparr>,
                        issued = 2\<rparr>"
         and ?ws1.0 = "[]" and w = withdrawal_abc and ?ws2.0 = "[]"
         and ?t3.0 = "\<lparr>work = db_initiated\<lparr>l1_blocks := [l1_block_values block_O1],
                             deposits := [deposit_values ''gg'' deposit_d1 ''0xO1'']\<rparr>,
                        issued = 2\<rparr>"]
    failed_ingestion_leaves_no_trace
      [where e = env0 and ?b2.0 = block_D1 and db = db_initiated
         and err = "UniqueViolation ''l2_blocks.hash''" and ?b1.0 = block_O1]
    failed_ingestion_leaves_no_trace
      [where e = env0 and ?b2.0 = block_D1 and db = db_finalized_first
         and err = "UniqueViolation ''withdrawals.tx_hash''"
         and ?t1.0 = "\<lparr>work = db_finalized_first\<lparr>l2_blocks := [l2_block_values block_D1]\<rparr>,
                        issued = 1\<rparr>"
         and ?ws1.0 = "[]" and w = withdrawal_abc and ?ws2.0 = "[]"
         and ?t3.0 = "\<lparr>work = db_finalized_first\<lparr>l2_blocks := [l2_block_values block_D1]\<rparr>,
                        issued = 1\<rparr>"]
  by (simp add: sample_defs write_defs)

subsection \<open>Rows are never deleted or rewritten\<close>

text \<open>
  Claim C10 (no row is deleted, no token row is changed, the only column ever updated is
  the origin block hash of a withdrawal). After each of the four writing methods of db.go,
  whatever it returns, every table starts with the rows it held before the call, in the
  same order and unchanged, except that a withdrawal row may differ in \<open>l1_block_hash\<close>.
  The reading methods do not change the database: they have no database among their
  results.
\<close>

theorem writes_never_delete_or_rewrite:
  "only_grows db (snd (AddL1Token e a tok db)) \<and>
   only_grows db (snd (AddL2Token e a tok db)) \<and>
   only_grows db (snd (AddIndexedL1Block e b1 db)) \<and>
   only_grows db (snd (AddIndexedL2Block e b2 db))"
  by (simp add: AddL1Token_grows AddL2Token_grows AddIndexedL1Block_grows AddIndexedL2Block_grows)

theorem writes_never_delete_or_rewrite_witness:
  "only_grows db_initiated db_finalized \<and>
   withdrawals db_initiated \<noteq> withdrawals db_finalized \<and>
   only_grows db_tokens (snd (AddL1Token env0 ''0xT1'' token_T2 db_tokens)) \<and>
   fst (AddL1Token env0 ''0xT1'' token_T2 db_tokens) = Some (UniqueViolation ''l1_tokens.address'')"
  using writes_never_delete_or_rewrite [of db_initiated env0 "''0xT1''" token_T2 block_O1 block_D1]
    writes_never_delete_or_rewrite [of db_tokens env0 "''0xT1''" token_T2 block_O1 block_D1]
  by (simp add: sample_defs write_defs)

subsection \<open>The status of one withdrawal\<close>

text \<open>
  Claim C5 (\<open>GetWithdrawalStatus\<close> reports an absent withdrawal as not found). The
  specification asks for an explicit absent result when no row matches or one side of the
  join is missing. The code declares \<open>var withdrawal *WithdrawalJSON\<close> and passes
  \<open>&withdrawal.GUID\<close> and the other field addresses to \<open>row.Scan\<close> (db.go, lines 422 to
  439); the arguments are evaluated before \<open>Scan\<close> runs, so the call panics on the nil
  pointer even when the query selects no row. Here 0xabc is initiated and not finalized:
  the query selects nothing, and the method panics; so it does on the empty database.
\<close>

theorem status_of_initiated_withdrawal_panics:
  "selectWithdrawalStatement db_initiated ''0xabc'' = [] \<and>
   GetWithdrawalStatus db_initiated ''0xabc'' = Panicked NilPointerDereference \<and>
   GetWithdrawalStatus empty_database ''0xabc'' = Panicked NilPointerDereference"
  by (simp add: sample_defs write_defs read_defs)

text \<open>
  Claim C8 (\<open>GetWithdrawalStatus\<close> writes through a nil pointer). Whenever the query of
  \<open>GetWithdrawalStatus\<close> selects a fully joined row, the call panics with a nil pointer
  dereference; and on no input does the method return a populated view.
\<close>

theorem status_never_returns_a_view:
  "(selectWithdrawalStatement db hash \<noteq> [] \<longrightarrow>
      GetWithdrawalStatus db hash = Panicked NilPointerDereference) \<and>
   GetWithdrawalStatus db hash \<noteq> Returned (Some view)"
  by (simp add: GetWithdrawalStatus_def)

theorem status_never_returns_a_view_witness:
  "selectWithdrawalStatement db_finalized ''0xabc'' \<noteq> [] \<and>
   GetWithdrawalStatus db_finalized ''0xabc'' = Panicked NilPointerDereference"
  using status_never_returns_a_view [of db_finalized "''0xabc''"]
  by (simp add: sample_defs write_defs read_defs)

subsection \<open>The listings of an address\<close>



subsection \<open>Events whose token is not registered\<close>




end
